theory Spec2Isabelle
  imports Complex_Main "HOL-Library.Word"
begin

unbundle bit_operations_syntax

section \<open>JavaScript numbers\<close>

text \<open>
  A JavaScript Number is modelled as an exact real extended by the three special values
  of IEEE 754 arithmetic. The special values follow the JavaScript rules (\<open>1 / 0\<close> is
  \<open>Infinity\<close>, \<open>0 * Infinity\<close> is \<open>NaN\<close>, \<open>NaN == NaN\<close> is false). Finite results are
  exact: rounding, overflow of finite values to infinity, underflow and the sign of zero
  are not modelled (a zero divisor is taken as \<open>+0\<close>). The subsection on rounding below
  adds the rounding of every finite result to a double, for the functions whose
  properties depend on it.
\<close>

datatype number = Finite real | PosInf | NegInf | NaN


text \<open>The sign of a number that is not \<open>NaN\<close>: \<open>-1\<close>, \<open>0\<close> or \<open>1\<close>.\<close>

fun num_sgn :: "number \<Rightarrow> int" where
  "num_sgn (Finite a) = (if a < 0 then - 1 else if a = 0 then 0 else 1)"
| "num_sgn PosInf = 1"
| "num_sgn NegInf = - 1"
| "num_sgn NaN = 0"

definition inf_of_sgn :: "int \<Rightarrow> number" where
  "inf_of_sgn k = (if k = 0 then NaN else if 0 < k then PosInf else NegInf)"

fun num_neg :: "number \<Rightarrow> number" where
  "num_neg (Finite a) = Finite (- a)"
| "num_neg PosInf = NegInf"
| "num_neg NegInf = PosInf"
| "num_neg NaN = NaN"

text \<open>\<open>a + b\<close>\<close>

fun num_add :: "number \<Rightarrow> number \<Rightarrow> number" where
  "num_add (Finite a) (Finite b) = Finite (a + b)"
| "num_add NaN _ = NaN"
| "num_add _ NaN = NaN"
| "num_add PosInf NegInf = NaN"
| "num_add NegInf PosInf = NaN"
| "num_add PosInf _ = PosInf"
| "num_add _ PosInf = PosInf"
| "num_add NegInf _ = NegInf"
| "num_add _ NegInf = NegInf"

text \<open>\<open>a - b\<close>\<close>

definition num_sub :: "number \<Rightarrow> number \<Rightarrow> number" where
  "num_sub a b = num_add a (num_neg b)"

text \<open>\<open>a * b\<close>: a product with an infinite factor has the sign of the two factors, and
  is \<open>NaN\<close> when the other factor is zero.\<close>

fun num_mul :: "number \<Rightarrow> number \<Rightarrow> number" where
  "num_mul (Finite a) (Finite b) = Finite (a * b)"
| "num_mul NaN _ = NaN"
| "num_mul _ NaN = NaN"
| "num_mul a b = inf_of_sgn (num_sgn a * num_sgn b)"

text \<open>\<open>a / b\<close>\<close>

fun num_div :: "number \<Rightarrow> number \<Rightarrow> number" where
  "num_div (Finite a) (Finite b) =
     (if b = 0 then inf_of_sgn (num_sgn (Finite a)) else Finite (a / b))"
| "num_div NaN _ = NaN"
| "num_div _ NaN = NaN"
| "num_div (Finite a) _ = Finite 0"
| "num_div a (Finite b) = inf_of_sgn (num_sgn a * (if b < 0 then - 1 else 1))"
| "num_div _ _ = NaN"


fun num_sin :: "number \<Rightarrow> number" where
  "num_sin (Finite a) = Finite (sin a)"
| "num_sin _ = NaN"

fun num_cos :: "number \<Rightarrow> number" where
  "num_cos (Finite a) = Finite (cos a)"
| "num_cos _ = NaN"

text \<open>\<open>a == b\<close> and \<open>a === b\<close> on two numbers; \<open>a !== b\<close> is its negation.\<close>

fun num_eq :: "number \<Rightarrow> number \<Rightarrow> bool" where
  "num_eq (Finite a) (Finite b) = (a = b)"
| "num_eq PosInf PosInf = True"
| "num_eq NegInf NegInf = True"
| "num_eq _ _ = False"

text \<open>\<open>ToBoolean\<close> on a number: zero and \<open>NaN\<close> are falsy.\<close>

fun truthy :: "number \<Rightarrow> bool" where
  "truthy (Finite a) = (a \<noteq> 0)"
| "truthy NaN = False"
| "truthy _ = True"

text \<open>\<open>ToInt32\<close>: truncate towards zero, then keep the low 32 bits; the special values
  give 0. Reading the word back with \<open>sint\<close> gives the signed 32-bit value.\<close>

definition truncateReal :: "real \<Rightarrow> int" where
  "truncateReal a = (if a < 0 then \<lceil>a\<rceil> else \<lfloor>a\<rfloor>)"

fun toInt32 :: "number \<Rightarrow> 32 word" where
  "toInt32 (Finite a) = word_of_int (truncateReal a)"
| "toInt32 _ = 0"

definition ofInt32 :: "32 word \<Rightarrow> number" where
  "ofInt32 w = Finite (of_int (sint w))"

text \<open>\<open>a | b\<close> and \<open>a << b\<close> (the shift count is the low five bits of \<open>b\<close>).\<close>

definition num_bitor :: "number \<Rightarrow> number \<Rightarrow> number" where
  "num_bitor a b = ofInt32 (toInt32 a OR toInt32 b)"

definition num_shl :: "number \<Rightarrow> number \<Rightarrow> number" where
  "num_shl a b = ofInt32 (push_bit (unat (toInt32 b AND 31)) (toInt32 a))"

subsection \<open>Rounding to doubles\<close>

text \<open>
  An arithmetic operation on doubles returns its exact result rounded to a double. The
  rounding is a function \<open>fl\<close> from the exact finite result to a number (a double, or an
  infinity on overflow); the special values pass through unchanged. The operations
  \<open>fl_add\<close>, \<open>fl_sub\<close>, \<open>fl_mul\<close>, \<open>fl_div\<close> and \<open>fl_sqrt\<close> are \<open>+\<close>, \<open>-\<close>, \<open>*\<close>, \<open>/\<close> and
  \<open>Math.sqrt\<close> under the rounding \<open>fl\<close>. With \<open>fl = Finite\<close> they are the exact operations.
\<close>

definition rounded :: "(real \<Rightarrow> number) \<Rightarrow> number \<Rightarrow> number" where
  "rounded fl v = (case v of Finite r \<Rightarrow> fl r | _ \<Rightarrow> v)"

definition fl_add :: "(real \<Rightarrow> number) \<Rightarrow> number \<Rightarrow> number \<Rightarrow> number" where
  "fl_add fl a b = rounded fl (num_add a b)"

definition fl_sub :: "(real \<Rightarrow> number) \<Rightarrow> number \<Rightarrow> number \<Rightarrow> number" where
  "fl_sub fl a b = rounded fl (num_sub a b)"

definition fl_mul :: "(real \<Rightarrow> number) \<Rightarrow> number \<Rightarrow> number \<Rightarrow> number" where
  "fl_mul fl a b = rounded fl (num_mul a b)"

definition fl_div :: "(real \<Rightarrow> number) \<Rightarrow> number \<Rightarrow> number \<Rightarrow> number" where
  "fl_div fl a b = rounded fl (num_div a b)"


text \<open>
  The rounding of IEEE 754 binary64, round to nearest with ties to even: a value with
  binary exponent \<open>k\<close> (at least \<open>-1022\<close>, below that the numbers are subnormal) is
  rounded to a multiple of \<open>2 ^ (k - 52)\<close>; a result of magnitude \<open>2 ^ 1024\<close> or more is an
  infinity. The sign of a zero result is not kept.
\<close>

definition roundHalfEven :: "real \<Rightarrow> int" where
  "roundHalfEven v =
     (let f = \<lfloor>v\<rfloor>;
          d = v - of_int f
      in if d < 1 / 2 then f
         else if 1 / 2 < d then f + 1
         else if even f then f else f + 1)"

definition roundDouble :: "real \<Rightarrow> number" where
  "roundDouble v =
     (if v = 0 then Finite 0
      else let k = max \<lfloor>log 2 \<bar>v\<bar>\<rfloor> (- 1022);
               q = 2 powr of_int (k - 52);
               r = of_int (roundHalfEven (v / q)) * q
           in if 2 ^ 1024 \<le> \<bar>r\<bar> then (if v < 0 then NegInf else PosInf) else Finite r)"

section \<open>ParticleUtils\<close>

definition DEG_TO_RADS :: number where
  "DEG_TO_RADS = num_div (Finite pi) (Finite 180)"

text \<open>A \<open>PIXI.Point\<close>. The utilities mutate their point argument in place; the model
  returns the contents of the point after the call.\<close>

record point =
  x :: number
  y :: number

definition rotatePoint :: "number \<Rightarrow> point \<Rightarrow> point" where
  "rotatePoint angle p =
     (if \<not> truthy angle then p
      else let angle = num_mul angle DEG_TO_RADS;
               s = num_sin angle;
               c = num_cos angle;
               xnew = num_sub (num_mul (x p) c) (num_mul (y p) s);
               ynew = num_add (num_mul (x p) s) (num_mul (y p) c)
           in p\<lparr>x := xnew, y := ynew\<rparr>)"

text \<open>\<open>r << 16 | g << 8 | b\<close>: the shifts bind tighter than \<open>|\<close>, which associates to
  the left.\<close>

definition combineRGBComponents :: "number \<Rightarrow> number \<Rightarrow> number \<Rightarrow> number" where
  "combineRGBComponents r g b =
     num_bitor (num_bitor (num_shl r (Finite 16)) (num_shl g (Finite 8))) b"



subsection \<open>Strings\<close>

text \<open>A string is a list of characters; the model covers ASCII text, where a character
  is one code unit. \<open>charAt\<close> gives the empty string out of range, \<open>substr\<close> takes a start
  and an optional length, \<open>indexOf\<close> gives the first position of a pattern or \<open>-1\<close>.\<close>

definition charAt :: "string \<Rightarrow> nat \<Rightarrow> string" where
  "charAt str i = (if i < length str then [str ! i] else [])"

definition substr :: "string \<Rightarrow> nat \<Rightarrow> nat option \<Rightarrow> string" where
  "substr str start len =
     (case len of None \<Rightarrow> drop start str | Some n \<Rightarrow> take n (drop start str))"

fun indexOf :: "string \<Rightarrow> string \<Rightarrow> int" where
  "indexOf [] pat = (if pat = [] then 0 else - 1)"
| "indexOf (c # cs) pat =
     (if take (length pat) (c # cs) = pat then 0
      else let k = indexOf cs pat in if k < 0 then - 1 else k + 1)"

text \<open>\<open>str.replace(pat, rep)\<close> with a string pattern replaces the first occurrence only
  (\<open>rep\<close> is taken literally: the replacement used here has no \<open>$\<close> pattern).\<close>

definition replace :: "string \<Rightarrow> string \<Rightarrow> string \<Rightarrow> string" where
  "replace str pat rep =
     (let k = indexOf str pat
      in if k < 0 then str else take (nat k) str @ rep @ drop (nat k + length pat) str)"

definition toUpper :: "char \<Rightarrow> char" where
  "toUpper c =
     (let n = of_char c :: nat in if 97 \<le> n \<and> n \<le> 122 then char_of (n - 32) else c)"

definition toUpperCase :: "string \<Rightarrow> string" where
  "toUpperCase str = map toUpper str"

text \<open>\<open>parseInt(str, 16)\<close>: leading white space is skipped, then an optional sign and an
  optional \<open>0x\<close> or \<open>0X\<close>; the longest run of hexadecimal digits that follows is the
  value, and \<open>NaN\<close> when there is none.\<close>

definition hexDigit :: "char \<Rightarrow> nat option" where
  "hexDigit c =
     (let n = of_char c :: nat
      in if 48 \<le> n \<and> n \<le> 57 then Some (n - 48)
         else if 65 \<le> n \<and> n \<le> 70 then Some (n - 55)
         else if 97 \<le> n \<and> n \<le> 102 then Some (n - 87)
         else None)"

definition hexValue :: "char \<Rightarrow> nat" where
  "hexValue c = (case hexDigit c of Some d \<Rightarrow> d | None \<Rightarrow> 0)"

definition isWhiteSpace :: "char \<Rightarrow> bool" where
  "isWhiteSpace c = ((of_char c :: nat) \<in> {9, 10, 11, 12, 13, 32})"

definition parseInt16 :: "string \<Rightarrow> number" where
  "parseInt16 str =
     (let s1 = dropWhile isWhiteSpace str;
          sign = (if take 1 s1 = ''-'' then - 1 else 1 :: real);
          s2 = (if take 1 s1 = ''+'' \<or> take 1 s1 = ''-'' then drop 1 s1 else s1);
          s3 = (if take 2 s2 = ''0x'' \<or> take 2 s2 = ''0X'' then drop 2 s2 else s2);
          z = takeWhile (\<lambda>c. hexDigit c \<noteq> None) s3
      in if z = [] then NaN
         else Finite (sign * real (foldl (\<lambda>acc c. 16 * acc + hexValue c) 0 z)))"

text \<open>The value of a pair of hexadecimal digits.\<close>

definition hexPair :: "char \<Rightarrow> char \<Rightarrow> number" where
  "hexPair c d = Finite (real (16 * hexValue c + hexValue d))"

subsection \<open>hexToRGB\<close>

text \<open>The optional \<open>output\<close> array is emptied when given and created when omitted, so
  the result starts from the empty array either way. \<open>alpha\<close> is \<open>undefined\<close> (\<open>None\<close>)
  unless the string has eight characters after its prefix; a string is truthy when it is
  not empty.\<close>

definition hexToRGB :: "string \<Rightarrow> number list option \<Rightarrow> number list" where
  "hexToRGB color output =
     (let out0 = (case output of Some _ \<Rightarrow> [] | None \<Rightarrow> []);
          color1 = (if charAt color 0 = ''#'' then substr color 1 None
                    else if indexOf color ''0x'' = 0 then substr color 2 None
                    else color);
          alpha = (if length color1 = 8 then Some (substr color1 0 (Some 2)) else None);
          color2 = (if length color1 = 8 then substr color1 2 None else color1);
          out1 = out0 @ [parseInt16 (substr color2 0 (Some 2))];
          out2 = out1 @ [parseInt16 (substr color2 2 (Some 2))];
          out3 = out2 @ [parseInt16 (substr color2 4 (Some 2))]
      in case alpha of
           None \<Rightarrow> out3
         | Some a \<Rightarrow> if a \<noteq> [] then out3 @ [parseInt16 a] else out3)"

subsection \<open>generateEase\<close>

record segment =
  s :: number
  cp :: number
  e :: number

datatype js_error = TypeError

text \<open>\<open>xs[i]\<close> for a number \<open>i\<close>: the element when \<open>i\<close> is an integer index inside the
  array, \<open>undefined\<close> (\<open>None\<close>) otherwise.\<close>

definition array_get :: "'a list \<Rightarrow> number \<Rightarrow> 'a option" where
  "array_get xs i =
     (case i of
        Finite r \<Rightarrow>
          if r = of_int \<lfloor>r\<rfloor> \<and> 0 \<le> r \<and> r < real (length xs) then Some (xs ! nat \<lfloor>r\<rfloor>)
          else None
      | _ \<Rightarrow> None)"

text \<open>\<open>(qty * time) | 0\<close>\<close>

definition easeIndex :: "number \<Rightarrow> number \<Rightarrow> number" where
  "easeIndex qty time = num_bitor (num_mul qty time) (Finite 0)"

text \<open>\<open>segments[i] || segments[qty - 1]\<close>: a segment object is truthy, so the second
  operand is taken exactly when the first is \<open>undefined\<close>.\<close>

definition easeSegment :: "segment list \<Rightarrow> number \<Rightarrow> number \<Rightarrow> segment option" where
  "easeSegment segments qty i =
     (case array_get segments i of
        Some sg \<Rightarrow> Some sg
      | None \<Rightarrow> array_get segments (num_sub qty (Finite 1)))"

text \<open>The closure \<open>simpleEase\<close> with its captured variables as arguments. Reading a field
  of \<open>undefined\<close> raises a \<open>TypeError\<close>.\<close>

definition simpleEase ::
  "segment list \<Rightarrow> number \<Rightarrow> number \<Rightarrow> number \<Rightarrow> js_error + number" where
  "simpleEase segments qty oneOverQty time =
     (let i = easeIndex qty time;
          t = num_mul (num_sub time (num_mul i oneOverQty)) qty
      in case easeSegment segments qty i of
           None \<Rightarrow> Inl TypeError
         | Some sg \<Rightarrow>
             Inr (num_add (s sg)
                    (num_mul t
                       (num_add
                          (num_mul (num_mul (Finite 2) (num_sub (Finite 1) t))
                             (num_sub (cp sg) (s sg)))
                          (num_mul t (num_sub (e sg) (s sg)))))))"

definition generateEase :: "segment list \<Rightarrow> number \<Rightarrow> js_error + number" where
  "generateEase segments =
     (let qty = Finite (real (length segments));
          oneOverQty = num_div (Finite 1) qty
      in simpleEase segments qty oneOverQty)"

text \<open>
  The same closure with every arithmetic result rounded by \<open>fl\<close>; \<open>| 0\<close> gives an
  integer, which needs no rounding. The time within the segment \<open>t\<close> and the value of a
  segment at \<open>t\<close> (the \<open>return\<close> expression) are named, so that the result can be stated
  for the segment that was selected.
\<close>

definition easeIndex_fl :: "(real \<Rightarrow> number) \<Rightarrow> number \<Rightarrow> number \<Rightarrow> number" where
  "easeIndex_fl fl qty time = num_bitor (fl_mul fl qty time) (Finite 0)"

definition easeTime_fl ::
  "(real \<Rightarrow> number) \<Rightarrow> number \<Rightarrow> number \<Rightarrow> number \<Rightarrow> number \<Rightarrow> number" where
  "easeTime_fl fl qty oneOverQty i time =
     fl_mul fl (fl_sub fl time (fl_mul fl i oneOverQty)) qty"

definition easeSegment_fl ::
  "(real \<Rightarrow> number) \<Rightarrow> segment list \<Rightarrow> number \<Rightarrow> number \<Rightarrow> segment option" where
  "easeSegment_fl fl segments qty i =
     (case array_get segments i of
        Some sg \<Rightarrow> Some sg
      | None \<Rightarrow> array_get segments (fl_sub fl qty (Finite 1)))"

definition easeValue_fl :: "(real \<Rightarrow> number) \<Rightarrow> segment \<Rightarrow> number \<Rightarrow> number" where
  "easeValue_fl fl sg t =
     fl_add fl (s sg)
       (fl_mul fl t
          (fl_add fl
             (fl_mul fl (fl_mul fl (Finite 2) (fl_sub fl (Finite 1) t))
                (fl_sub fl (cp sg) (s sg)))
             (fl_mul fl t (fl_sub fl (e sg) (s sg)))))"

definition simpleEase_fl ::
  "(real \<Rightarrow> number) \<Rightarrow> segment list \<Rightarrow> number \<Rightarrow> number \<Rightarrow> number
     \<Rightarrow> js_error + number" where
  "simpleEase_fl fl segments qty oneOverQty time =
     (let i = easeIndex_fl fl qty time;
          t = easeTime_fl fl qty oneOverQty i time
      in case easeSegment_fl fl segments qty i of
           None \<Rightarrow> Inl TypeError
         | Some sg \<Rightarrow> Inr (easeValue_fl fl sg t))"

definition generateEase_fl ::
  "(real \<Rightarrow> number) \<Rightarrow> segment list \<Rightarrow> number \<Rightarrow> js_error + number" where
  "generateEase_fl fl segments =
     (let qty = Finite (real (length segments));
          oneOverQty = fl_div fl (Finite 1) qty
      in simpleEase_fl fl segments qty oneOverQty)"

subsection \<open>getBlendMode\<close>

text \<open>The loop \<open>while (name.indexOf(" ") >= 0) name = name.replace(" ", "_")\<close>. Each
  round replaces one space, so the number of spaces is a measure.\<close>

function getBlendMode_loop :: "string \<Rightarrow> string" where
  "getBlendMode_loop name =
     (if 0 \<le> indexOf name '' '' then getBlendMode_loop (replace name '' '' ''_'') else name)"
  by pat_completeness auto
termination
proof (relation "measure (\<lambda>name. length (filter (\<lambda>a. a = CHR '' '') name))")
  show "wf (measure (\<lambda>name. length (filter (\<lambda>a. a = CHR '' '') name)))"
    by simp
next
  fix name :: string
  assume "0 \<le> indexOf name '' ''"
  then have "length (filter (\<lambda>a. a = CHR '' '') (replace name '' '' ''_''))
               < length (filter (\<lambda>a. a = CHR '' '') name)"
  proof (induction name)
    case Nil
    then show ?case by simp
  next
    case (Cons a cs)
    show ?case
    proof (cases "a = CHR '' ''")
      case True
      then show ?thesis by (simp add: replace_def)
    next
      case False
      with Cons.prems have k: "0 \<le> indexOf cs '' ''"
        by (simp add: Let_def split: if_splits)
      from Cons.IH [OF k] False k show ?thesis
        by (simp add: replace_def Let_def nat_add_distrib)
    qed
  qed
  then show "(replace name '' '' ''_'', name)
               \<in> measure (\<lambda>name. length (filter (\<lambda>a. a = CHR '' '') name))"
    by simp
qed

declare getBlendMode_loop.simps [simp del]

text \<open>\<open>BLEND_MODES\<close> is the enumeration of the PIXI library, which is not part of this
  repository: it is a parameter, a table from property names to numbers (\<open>None\<close> is
  \<open>undefined\<close>). The name is \<open>undefined\<close> (\<open>None\<close>) or a string; \<open>undefined\<close> and the empty
  string are falsy. \<open>a || b\<close> is \<open>b\<close> when \<open>a\<close> is \<open>undefined\<close> or a falsy number.\<close>

definition getBlendMode :: "(string \<Rightarrow> number option) \<Rightarrow> string option \<Rightarrow> number option" where
  "getBlendMode BLEND_MODES name =
     (case name of
        None \<Rightarrow> BLEND_MODES ''NORMAL''
      | Some name0 \<Rightarrow>
          if name0 = [] then BLEND_MODES ''NORMAL''
          else let name1 = toUpperCase name0;
                   name2 = getBlendMode_loop name1
               in case BLEND_MODES name2 of
                    None \<Rightarrow> BLEND_MODES ''NORMAL''
                  | Some v \<Rightarrow> if truthy v then Some v else BLEND_MODES ''NORMAL'')"

text \<open>The first four entries of PIXI's \<open>BLEND_MODES\<close> enumeration, as a concrete table.\<close>

definition exampleBlendModes :: "string \<Rightarrow> number option" where
  "exampleBlendModes =
     map_of [(''NORMAL'', Finite 0), (''ADD'', Finite 1), (''MULTIPLY'', Finite 2),
       (''SCREEN'', Finite 3)]"

section \<open>SpawnPolygonStrategy\<close>

text \<open>
  Objects are held in a store and named by references, since \<open>spawn\<close> reaches the emitter
  through the particle, and writes to two \<open>Point\<close> objects: the particle's position and
  the module's scratch point \<open>Temp.point\<close>.
\<close>

text \<open>
  Modelled from the spec: the classes \<open>Emitter\<close>, \<open>Particle\<close>, \<open>Temp\<close> and
  \<open>PolygonalChain\<close> are not among the sources. The records have the fields that \<open>spawn\<close>
  reads and writes and the emitter fields of the spec's data model ("position, rotation,
  min/max start-rotation bounds, the active spawn-type tag, and shape-specific data");
  the chain is an abstract type. \<open>getRandomPoint(outputPoint)\<close> "writes its coordinates
  into the caller-supplied point", so it is a parameter of \<open>spawn\<close> that maps the chain
  and the old contents of the point to its new contents. The result of \<open>Math.random()\<close>
  is a parameter too.
\<close>

type_synonym ref = nat

record 'chain emitter =
  position :: ref
  rotation :: number
  minStartRotation :: number
  maxStartRotation :: number
  spawnType :: string
  spawnPolygonalChain :: 'chain

record particle =
  emitter :: ref
  rotation :: number
  position :: ref

record 'chain world =
  points :: "ref \<Rightarrow> point"
  particles :: "ref \<Rightarrow> particle"
  emitters :: "ref \<Rightarrow> 'chain emitter"
  Temp_point :: ref

text \<open>The four steps of \<open>spawn\<close>, in the order of the source. \<open>em\<close> is the reference
  read from \<open>p.emitter\<close> at the start.\<close>

text \<open>The \<open>if\<close> / \<open>else\<close> that assigns \<open>p.rotation\<close>.\<close>

definition setRotation :: "number \<Rightarrow> ref \<Rightarrow> ref \<Rightarrow> 'chain world \<Rightarrow> 'chain world" where
  "setRotation random p em w =
     (if num_eq (minStartRotation (emitters w em)) (maxStartRotation (emitters w em))
      then w\<lparr>particles := (particles w)(p := (particles w p)
             \<lparr>rotation := num_add (minStartRotation (emitters w em))
                            (emitter.rotation (emitters w em))\<rparr>)\<rparr>
      else w\<lparr>particles := (particles w)(p := (particles w p)
             \<lparr>rotation :=
                num_add
                  (num_add
                     (num_mul random
                        (num_sub (maxStartRotation (emitters w em))
                           (minStartRotation (emitters w em))))
                     (minStartRotation (emitters w em)))
                  (emitter.rotation (emitters w em))\<rparr>)\<rparr>)"

text \<open>\<open>emitter.spawnPolygonalChain.getRandomPoint(Temp.point)\<close>\<close>

definition samplePoint ::
  "('chain \<Rightarrow> point \<Rightarrow> point) \<Rightarrow> ref \<Rightarrow> 'chain world \<Rightarrow> 'chain world" where
  "samplePoint getRandomPoint em w =
     w\<lparr>points := (points w)(Temp_point w :=
          getRandomPoint (spawnPolygonalChain (emitters w em)) (points w (Temp_point w)))\<rparr>"

text \<open>\<open>if (emitter.rotation !== 0) ParticleUtils.rotatePoint(emitter.rotation, Temp.point)\<close>\<close>

definition rotateSampled :: "ref \<Rightarrow> 'chain world \<Rightarrow> 'chain world" where
  "rotateSampled em w =
     (if \<not> num_eq (emitter.rotation (emitters w em)) (Finite 0)
      then w\<lparr>points := (points w)(Temp_point w :=
             rotatePoint (emitter.rotation (emitters w em)) (points w (Temp_point w)))\<rparr>
      else w)"

text \<open>The two assignments to \<open>p.position.x\<close> and \<open>p.position.y\<close>.\<close>

definition setPosition :: "ref \<Rightarrow> number \<Rightarrow> number \<Rightarrow> 'chain world \<Rightarrow> 'chain world" where
  "setPosition p emitPosX emitPosY w =
     (let pos = particle.position (particles w p);
          w1 = w\<lparr>points := (points w)(pos := (points w pos)
                 \<lparr>x := num_add emitPosX (x (points w (Temp_point w)))\<rparr>)\<rparr>
      in w1\<lparr>points := (points w1)(pos := (points w1 pos)
              \<lparr>y := num_add emitPosY (y (points w1 (Temp_point w1)))\<rparr>)\<rparr>)"

definition spawn ::
  "('chain \<Rightarrow> point \<Rightarrow> point) \<Rightarrow> number \<Rightarrow> ref \<Rightarrow> number \<Rightarrow> number
     \<Rightarrow> 'chain world \<Rightarrow> 'chain world" where
  "spawn getRandomPoint random p emitPosX emitPosY w =
     (let em = particle.emitter (particles w p)
      in setPosition p emitPosX emitPosY
           (rotateSampled em (samplePoint getRandomPoint em (setRotation random p em w))))"

text \<open>The local point of a spawn: the point sampled from the emitter's chain, rotated by
  \<open>rotatePoint\<close> when the emitter's rotation is not \<open>0\<close>.\<close>

definition localPoint :: "('chain \<Rightarrow> point \<Rightarrow> point) \<Rightarrow> ref \<Rightarrow> 'chain world \<Rightarrow> point" where
  "localPoint getRandomPoint p w =
     (let em = emitters w (particle.emitter (particles w p));
          sampled = getRandomPoint (spawnPolygonalChain em) (points w (Temp_point w))
      in if \<not> num_eq (emitter.rotation em) (Finite 0)
         then rotatePoint (emitter.rotation em) sampled
         else sampled)"

text \<open>A concrete world: one emitter (reference 0) with the given start-rotation bounds
  and rotation, one particle (reference 0) whose position is the point 1, the scratch
  point 0, and the emitter's position at the point 2; and a sampler that writes the point
  \<open>(3, 4)\<close>.\<close>

definition exampleWorld :: "number \<Rightarrow> number \<Rightarrow> number \<Rightarrow> unit world" where
  "exampleWorld mn mx rot =
     \<lparr>points = (\<lambda>a. \<lparr>x = Finite 0, y = Finite 0\<rparr>),
      particles = (\<lambda>q. \<lparr>emitter = 0, rotation = Finite 0, position = 1\<rparr>),
      emitters = (\<lambda>r. \<lparr>emitter.position = 2, emitter.rotation = rot,
                          minStartRotation = mn,
                          maxStartRotation = mx, spawnType = ''polygonalChain'',
                          spawnPolygonalChain = ()\<rparr>),
      Temp_point = 0\<rparr>"

definition exampleSample :: "unit \<Rightarrow> point \<Rightarrow> point" where
  "exampleSample chain out = out\<lparr>x := Finite 3, y := Finite 4\<rparr>"

section \<open>Verified properties\<close>

subsection \<open>rotatePoint\<close>

text \<open>
  C8: \<open>rotatePoint(0, p)\<close> is a no-op for every point \<open>p\<close>: the falsy-angle test returns
  before any trigonometric computation, so both coordinates of the point are unchanged.
\<close>

theorem rotatePoint_zero_noop: "rotatePoint (Finite 0) p = p"
  by (simp add: rotatePoint_def)

theorem rotatePoint_zero_noop_witness:
  "rotatePoint (Finite 0) \<lparr>x = Finite 3, y = Finite 4\<rparr> = \<lparr>x = Finite 3, y = Finite 4\<rparr>"
  using rotatePoint_zero_noop [of "\<lparr>x = Finite 3, y = Finite 4\<rparr>"] .

subsection \<open>combineRGBComponents\<close>

lemma truncateReal_of_int: "truncateReal (of_int k) = k"
  by (simp add: truncateReal_def)

lemma toInt32_of_int: "toInt32 (Finite (of_int k)) = word_of_int k"
  by (simp add: truncateReal_of_int)

lemma toInt32_ofInt32: "toInt32 (ofInt32 w) = w"
  by (simp only: ofInt32_def toInt32.simps truncateReal_of_int) simp

lemma shift_count_16: "unat (toInt32 (Finite 16) AND 31) = 16"
  by (simp add: truncateReal_def)

lemma shift_count_8: "unat (toInt32 (Finite 8) AND 31) = 8"
  by (simp add: truncateReal_def)

lemma ofInt32_word_of_int:
  assumes "0 \<le> k" and "k < 2 ^ 31"
  shows "ofInt32 (word_of_int k) = Finite (of_int k)"
proof -
  have "sint (word_of_int k :: 32 word) = signed_take_bit 31 k"
    by (simp add: sint_sbintrunc')
  also have "\<dots> = k"
    using assms by (simp add: signed_take_bit_int_eq_self)
  finally show ?thesis
    by (simp add: ofInt32_def)
qed

lemma packed_bound:
  fixes r g b :: int
  assumes "0 \<le> r" "r \<le> 255" "0 \<le> g" "g \<le> 255" "0 \<le> b" "b \<le> 255"
  shows "0 \<le> push_bit 16 r OR push_bit 8 g OR b"
    and "push_bit 16 r OR push_bit 8 g OR b < 2 ^ 31"
proof -
  show "0 \<le> push_bit 16 r OR push_bit 8 g OR b"
    using assms by simp
  have r: "push_bit 16 r < 2 ^ 24" using assms by (simp add: push_bit_eq_mult)
  have g: "push_bit 8 g < 2 ^ 24" using assms by (simp add: push_bit_eq_mult)
  have b: "b < 2 ^ 24" using assms by simp
  have nn: "0 \<le> push_bit 16 r OR push_bit 8 g"
    using assms by simp
  have "0 \<le> push_bit 16 r"
    using assms by simp
  then have lt: "push_bit 16 r OR push_bit 8 g < 2 ^ 24"
    using r g by (rule OR_upper)
  have "(push_bit 16 r OR push_bit 8 g) OR b < 2 ^ 24"
    using nn lt b by (rule OR_upper)
  then show "push_bit 16 r OR push_bit 8 g OR b < 2 ^ 31"
    by (simp add: or.assoc)
qed

lemma combine_of_int:
  "combineRGBComponents (Finite (of_int r)) (Finite (of_int g)) (Finite (of_int b)) =
     ofInt32 (word_of_int (push_bit 16 r OR push_bit 8 g OR b))"
  unfolding combineRGBComponents_def num_bitor_def num_shl_def toInt32_ofInt32
    shift_count_16 shift_count_8 toInt32_of_int
  by (simp add: of_int_or_eq of_int_push_bit or.assoc)

text \<open>
  C7: for all integer channel values \<open>r\<close>, \<open>g\<close>, \<open>b\<close> in \<open>[0, 255]\<close>,
  \<open>combineRGBComponents(r, g, b)\<close> is exactly \<open>(r << 16) | (g << 8) | b\<close> computed on
  unbounded integers; in particular \<open>combineRGBComponents(255, 128, 64)\<close> is \<open>0xFF8040\<close>.
\<close>

theorem combineRGBComponents_packs:
  "(0 \<le> r \<and> r \<le> 255 \<and> 0 \<le> g \<and> g \<le> 255 \<and> 0 \<le> b \<and> b \<le> 255 \<longrightarrow>
      combineRGBComponents (Finite (of_int r)) (Finite (of_int g)) (Finite (of_int b)) =
        Finite (of_int (push_bit 16 r OR push_bit 8 g OR b)))
   \<and> combineRGBComponents (Finite 255) (Finite 128) (Finite 64) = Finite 0xFF8040"
proof (intro conjI impI)
  assume "0 \<le> r \<and> r \<le> 255 \<and> 0 \<le> g \<and> g \<le> 255 \<and> 0 \<le> b \<and> b \<le> 255"
  then show "combineRGBComponents (Finite (of_int r)) (Finite (of_int g)) (Finite (of_int b)) =
        Finite (of_int (push_bit 16 r OR push_bit 8 g OR b))"
    by (simp only: combine_of_int ofInt32_word_of_int packed_bound)
next
  show "combineRGBComponents (Finite 255) (Finite 128) (Finite 64) = Finite 0xFF8040"
    by (simp add: combineRGBComponents_def num_bitor_def num_shl_def ofInt32_def
        truncateReal_def)
qed

theorem combineRGBComponents_packs_witness:
  "(0::int) \<le> 18 \<and> (18::int) \<le> 255 \<and> (0::int) \<le> 52 \<and> (52::int) \<le> 255
   \<and> (0::int) \<le> 86 \<and> (86::int) \<le> 255
   \<and> combineRGBComponents (Finite (of_int 18)) (Finite (of_int 52)) (Finite (of_int 86)) =
       Finite (of_int 0x123456)"
  using combineRGBComponents_packs [of 18 52 86] by simp

subsection \<open>Rounding to doubles\<close>

lemma rounded_simps:
  "rounded fl (Finite r) = fl r"
  "rounded fl PosInf = PosInf"
  "rounded fl NegInf = NegInf"
  "rounded fl NaN = NaN"
  by (simp_all add: rounded_def)


lemma rounded_exact: "rounded Finite v = v"
  by (cases v) (simp_all add: rounded_def)

lemma roundHalfEven_of_int: "roundHalfEven (of_int m) = m"
  by (simp add: roundHalfEven_def)

lemma roundDouble_zero: "roundDouble 0 = Finite 0"
  by (simp add: roundDouble_def)

text \<open>Evaluation of \<open>roundDouble\<close> at a value whose binary exponent \<open>k\<close> is given.\<close>

lemma roundDouble_eval:
  assumes lo: "2 powr of_int k \<le> \<bar>v\<bar>" and hi: "\<bar>v\<bar> < 2 powr of_int (k + 1)"
    and m: "roundHalfEven (v / 2 powr of_int (max k (- 1022) - 52)) = m"
    and fin: "\<bar>real_of_int m * 2 powr of_int (max k (- 1022) - 52)\<bar> < 2 ^ 1024"
  shows "roundDouble v = Finite (of_int m * 2 powr of_int (max k (- 1022) - 52))"
proof -
  have pos: "0 < \<bar>v\<bar>"
    using lo by (rule less_le_trans [rotated]) simp
  then have nz: "v \<noteq> 0"
    by simp
  have "\<lfloor>log 2 \<bar>v\<bar>\<rfloor> = k"
    using pos lo hi by (simp add: floor_log_eq_powr_iff)
  then show ?thesis
    using nz m fin by (simp add: roundDouble_def Let_def)
qed

text \<open>Every integer of magnitude below \<open>2 ^ 53\<close> is a double.\<close>

lemma roundDouble_of_int:
  assumes "\<bar>j\<bar> < 2 ^ 53"
  shows "roundDouble (of_int j) = Finite (of_int j)"
proof (cases "j = 0")
  case True
  then show ?thesis by (simp add: roundDouble_zero)
next
  case False
  define k where "k = \<lfloor>log 2 \<bar>real_of_int j\<bar>\<rfloor>"
  have ja: "\<bar>real_of_int j\<bar> = real_of_int \<bar>j\<bar>"
    by simp
  have "1 \<le> \<bar>j\<bar>"
    using False by arith
  then have one: "1 \<le> \<bar>real_of_int j\<bar>"
    unfolding ja by simp
  have up: "\<bar>real_of_int j\<bar> < 2 ^ 53"
    unfolding ja using assms by simp
  have pos: "0 < \<bar>real_of_int j\<bar>"
    using one by linarith
  have kk: "2 powr real_of_int k \<le> \<bar>real_of_int j\<bar>"
    "\<bar>real_of_int j\<bar> < 2 powr (real_of_int k + 1)"
    using floor_log_eq_powr_iff [of "\<bar>real_of_int j\<bar>" 2 k] pos by (simp_all add: k_def)
  have k0: "0 \<le> k"
  proof (rule ccontr)
    assume "\<not> 0 \<le> k"
    then have "real_of_int k + 1 \<le> 0"
      by linarith
    then have "2 powr (real_of_int k + 1) \<le> 2 powr 0"
      by (intro powr_mono) simp_all
    with kk(2) one show False
      by simp
  qed
  have k52: "k \<le> 52"
  proof (rule ccontr)
    assume "\<not> k \<le> 52"
    then have "53 \<le> real_of_int k"
      by linarith
    then have "2 powr 53 \<le> 2 powr real_of_int k"
      by (intro powr_mono) simp_all
    with kk(1) up show False
      by simp
  qed
  define n where "n = nat (52 - k)"
  have kn: "real_of_int (k - 52) = - real n"
    using k52 by (simp add: n_def)
  have q: "2 powr real_of_int (k - 52) = 1 / 2 ^ n"
    unfolding kn by (simp add: powr_minus powr_realpow divide_inverse)
  have quot: "real_of_int j / (1 / 2 ^ n) = real_of_int (j * 2 ^ n)"
    by simp
  have mk: "max k (- 1022) = k"
    using k0 by simp
  have big: "\<bar>real_of_int j\<bar> < 2 ^ 1024"
    using up by (rule less_trans) simp
  have "roundDouble (of_int j) =
      Finite (of_int (roundHalfEven (real_of_int j / (1 / 2 ^ n))) * (1 / 2 ^ n))"
    using False big
    apply (simp only: roundDouble_def Let_def k_def [symmetric] mk q)
    apply (simp only: quot roundHalfEven_of_int)
    apply simp
    done
  then show ?thesis
    by (simp only: quot roundHalfEven_of_int) simp
qed

lemma roundDouble_small_integers:
  "roundDouble 1 = Finite 1" "roundDouble 2 = Finite 2" "roundDouble 3 = Finite 3"
  "roundDouble 5 = Finite 5" "roundDouble 9 = Finite 9" "roundDouble 10 = Finite 10"
  "roundDouble 16 = Finite 16" "roundDouble 20 = Finite 20" "roundDouble 25 = Finite 25"
  using roundDouble_of_int [of 1] roundDouble_of_int [of 2] roundDouble_of_int [of 3]
    roundDouble_of_int [of 5] roundDouble_of_int [of 9] roundDouble_of_int [of 10]
    roundDouble_of_int [of 16] roundDouble_of_int [of 20] roundDouble_of_int [of 25]
  by simp_all

text \<open>The double nearest to \<open>1/3\<close> is \<open>6004799503160661 / 2^54\<close>; three times it is
  \<open>1 - 2^-54\<close>, half way between two doubles, and rounds to \<open>1\<close>.\<close>

lemma roundDouble_third:
  "roundDouble (1 / 3) = Finite (6004799503160661 / 2 ^ 54)"
  "roundDouble (6004799503160661 / 2 ^ 54) = Finite (6004799503160661 / 2 ^ 54)"
  "roundDouble (3 * (6004799503160661 / 2 ^ 54)) = Finite 1"
  using roundDouble_eval [of "- 2" "1 / 3" 6004799503160661]
    roundDouble_eval [of "- 2" "6004799503160661 / 2 ^ 54" 6004799503160661]
    roundDouble_eval [of "- 1" "3 * (6004799503160661 / 2 ^ 54)" "2 ^ 53"]
  by (simp_all add: roundHalfEven_def powr_neg_numeral)



lemma roundDouble_half: "roundDouble (1 / 2) = Finite (1 / 2)"
  using roundDouble_eval [of "- 1" "1 / 2" "2 ^ 52"]
  by (simp add: roundHalfEven_def powr_neg_numeral)

subsection \<open>generateEase\<close>

text \<open>
  C1: the ease function built by \<open>generateEase\<close> from the single segment
  \<open>{s: 0, cp: 0.5, e: 1}\<close>, evaluated on the code: at \<open>time = 0\<close> it returns \<open>0\<close> and at
  \<open>time = 0.5\<close> it returns \<open>0.5\<close>, as claimed; at \<open>time = 1\<close> it returns \<open>0\<close>, where the
  claim says \<open>1\<close>.
\<close>

theorem generateEase_single_segment_values:
  "generateEase [\<lparr>s = Finite 0, cp = Finite (1 / 2), e = Finite 1\<rparr>] (Finite 0) = Inr (Finite 0)
   \<and> generateEase [\<lparr>s = Finite 0, cp = Finite (1 / 2), e = Finite 1\<rparr>] (Finite (1 / 2))
       = Inr (Finite (1 / 2))
   \<and> generateEase [\<lparr>s = Finite 0, cp = Finite (1 / 2), e = Finite 1\<rparr>] (Finite 1)
       = Inr (Finite 0)"
  by (simp add: generateEase_def simpleEase_def easeSegment_def easeIndex_def array_get_def
      num_bitor_def ofInt32_def truncateReal_def num_sub_def Let_def)

lemma truncateReal_zero: "truncateReal 0 = 0"
  by (simp add: truncateReal_def)

lemma array_get_int:
  "array_get xs (Finite (of_int k)) =
     (if 0 \<le> k \<and> k < int (length xs) then Some (xs ! nat k) else None)"
  by (auto simp add: array_get_def)

text \<open>\<open>(qty * time) | 0\<close> is the floor of the computed product when that product is
  not negative and below \<open>2^31\<close>.\<close>

lemma easeIndex_fl_floor:
  assumes "fl_mul fl qty time = Finite r" and "0 \<le> r" and "r < 2 ^ 31"
  shows "easeIndex_fl fl qty time = Finite (of_int \<lfloor>r\<rfloor>)"
proof -
  have tr: "truncateReal r = \<lfloor>r\<rfloor>"
    using assms(2) by (simp add: truncateReal_def)
  have lo: "0 \<le> \<lfloor>r\<rfloor>"
    using assms(2) by simp
  have hi: "\<lfloor>r\<rfloor> < 2 ^ 31"
    using assms(3) by (simp add: floor_less_iff)
  have "easeIndex_fl fl qty time = ofInt32 (word_of_int \<lfloor>r\<rfloor>)"
    by (simp add: easeIndex_fl_def num_bitor_def assms(1) tr truncateReal_zero)
  then show ?thesis
    by (simp only: ofInt32_word_of_int [OF lo hi])
qed

text \<open>\<open>segments[i] || segments[qty - 1]\<close> at an integer \<open>i\<close> that is not negative, when
  \<open>qty - 1\<close> is computed exactly.\<close>

lemma easeSegment_fl_selected:
  assumes "segments \<noteq> []"
    and "fl (real (length segments) - 1) = Finite (real (length segments) - 1)"
    and "0 \<le> k"
  shows "easeSegment_fl fl segments (Finite (real (length segments))) (Finite (of_int k)) =
           Some (if nat k < length segments then segments ! nat k else last segments)"
proof -
  have "real (length segments) - 1 = of_int (int (length segments) - 1)"
    using assms(1) by simp
  then have last_index: "fl_sub fl (Finite (real (length segments))) (Finite 1) =
      Finite (of_int (int (length segments) - 1))"
    using assms(2) by (simp add: fl_sub_def num_sub_def rounded_simps)
  have lst: "segments ! nat (int (length segments) - 1) = last segments"
    using assms(1) by (simp add: last_conv_nth nat_diff_distrib')
  have "array_get segments (fl_sub fl (Finite (real (length segments))) (Finite 1)) =
      Some (last segments)"
    unfolding last_index using assms(1) lst by (simp only: array_get_int) simp
  then show ?thesis
    using assms(3) by (simp add: easeSegment_fl_def array_get_int nat_less_iff)
qed

text \<open>
  C4: for every non-empty segment list, every rounding \<open>fl\<close> of the arithmetic that
  computes \<open>qty - 1\<close> exactly (the rounding of doubles does, for every list) and every
  time at which the computed product \<open>qty * time\<close> is a number \<open>r\<close> with
  \<open>0 \<le> r < 2^31\<close>, the ease function returns the value of the segment with index
  \<open>floor r\<close> when that index is inside the array, and the value of the last segment when
  it is not (as at \<open>time = 1\<close>, where the index is \<open>qty\<close>); it does not fail.
\<close>

theorem generateEase_segment_selection:
  assumes "segments \<noteq> []"
    and "fl (real (length segments) - 1) = Finite (real (length segments) - 1)"
    and "fl_mul fl (Finite (real (length segments))) time = Finite r"
    and "0 \<le> r" and "r < 2 ^ 31"
  shows "generateEase_fl fl segments time =
           Inr (easeValue_fl fl
                  (if nat \<lfloor>r\<rfloor> < length segments then segments ! nat \<lfloor>r\<rfloor>
                   else last segments)
                  (easeTime_fl fl (Finite (real (length segments)))
                     (fl_div fl (Finite 1) (Finite (real (length segments))))
                     (Finite (of_int \<lfloor>r\<rfloor>)) time))"
proof -
  have idx: "easeIndex_fl fl (Finite (real (length segments))) time = Finite (of_int \<lfloor>r\<rfloor>)"
    using assms(3-5) by (rule easeIndex_fl_floor)
  have "0 \<le> \<lfloor>r\<rfloor>"
    using assms(4) by simp
  with assms(1,2)
  have "easeSegment_fl fl segments (Finite (real (length segments))) (Finite (of_int \<lfloor>r\<rfloor>)) =
      Some (if nat \<lfloor>r\<rfloor> < length segments then segments ! nat \<lfloor>r\<rfloor> else last segments)"
    by (rule easeSegment_fl_selected)
  then show ?thesis
    by (simp add: generateEase_fl_def simpleEase_fl_def Let_def idx)
qed

text \<open>Three segments in double arithmetic. At \<open>time\<close> the double nearest to \<open>1/3\<close> the
  product \<open>3 * time\<close> rounds to \<open>1\<close>, so the second segment is evaluated, at \<open>t = 0\<close>; at
  \<open>time = 1\<close> the index is \<open>3\<close> and the last segment is evaluated, again at \<open>t = 0\<close>.\<close>

lemma easeValue_fl_at_zero:
  "easeValue_fl roundDouble \<lparr>s = Finite 10, cp = Finite 15, e = Finite 20\<rparr> (Finite 0) =
     Finite 10"
  "easeValue_fl roundDouble \<lparr>s = Finite 20, cp = Finite 25, e = Finite 30\<rparr> (Finite 0) =
     Finite 20"
  by (simp_all add: easeValue_fl_def fl_add_def fl_sub_def fl_mul_def num_sub_def rounded_simps
      roundDouble_zero roundDouble_small_integers)

theorem generateEase_segment_selection_witness:
  "[\<lparr>s = Finite 0, cp = Finite 5, e = Finite 10\<rparr>, \<lparr>s = Finite 10, cp = Finite 15, e = Finite 20\<rparr>,
     \<lparr>s = Finite 20, cp = Finite 25, e = Finite 30\<rparr>] \<noteq> []
   \<and> roundDouble (real (length [\<lparr>s = Finite 0, cp = Finite 5, e = Finite 10\<rparr>,
        \<lparr>s = Finite 10, cp = Finite 15, e = Finite 20\<rparr>,
        \<lparr>s = Finite 20, cp = Finite 25, e = Finite 30\<rparr>]) - 1) = Finite 2
   \<and> fl_mul roundDouble (Finite 3) (Finite (6004799503160661 / 2 ^ 54)) = Finite 1
   \<and> generateEase_fl roundDouble
        [\<lparr>s = Finite 0, cp = Finite 5, e = Finite 10\<rparr>, \<lparr>s = Finite 10, cp = Finite 15, e = Finite 20\<rparr>,
         \<lparr>s = Finite 20, cp = Finite 25, e = Finite 30\<rparr>]
        (Finite (6004799503160661 / 2 ^ 54)) = Inr (Finite 10)
   \<and> fl_mul roundDouble (Finite 3) (Finite 1) = Finite 3
   \<and> generateEase_fl roundDouble
        [\<lparr>s = Finite 0, cp = Finite 5, e = Finite 10\<rparr>, \<lparr>s = Finite 10, cp = Finite 15, e = Finite 20\<rparr>,
         \<lparr>s = Finite 20, cp = Finite 25, e = Finite 30\<rparr>]
        (Finite 1) = Inr (Finite 20)"
proof -
  let ?segs = "[\<lparr>s = Finite 0, cp = Finite 5, e = Finite 10\<rparr>,
     \<lparr>s = Finite 10, cp = Finite 15, e = Finite 20\<rparr>,
     \<lparr>s = Finite 20, cp = Finite 25, e = Finite 30\<rparr>]"
  have ne: "?segs \<noteq> []"
    by simp
  have last_index: "roundDouble (real (length ?segs) - 1) = Finite (real (length ?segs) - 1)"
    by (simp add: roundDouble_small_integers)
  have third: "fl_mul roundDouble (Finite (real (length ?segs))) (Finite (6004799503160661 / 2 ^ 54))
      = Finite 1"
    using roundDouble_third(3) by (simp add: fl_mul_def rounded_simps)
  have one: "fl_mul roundDouble (Finite (real (length ?segs))) (Finite 1) = Finite 3"
    by (simp add: fl_mul_def rounded_simps roundDouble_small_integers)
  have t_third: "easeTime_fl roundDouble (Finite 3) (fl_div roundDouble (Finite 1) (Finite 3))
      (Finite 1) (Finite (6004799503160661 / 2 ^ 54)) = Finite 0"
    using roundDouble_third(1,2)
    by (simp add: easeTime_fl_def fl_mul_def fl_sub_def fl_div_def num_sub_def rounded_simps
        roundDouble_zero)
  have t_one: "easeTime_fl roundDouble (Finite 3) (fl_div roundDouble (Finite 1) (Finite 3))
      (Finite 3) (Finite 1) = Finite 0"
    using roundDouble_third(1,3)
    by (simp add: easeTime_fl_def fl_mul_def fl_sub_def fl_div_def num_sub_def rounded_simps
        roundDouble_zero roundDouble_small_integers)
  have r1: "generateEase_fl roundDouble ?segs (Finite (6004799503160661 / 2 ^ 54)) =
      Inr (Finite 10)"
    using generateEase_segment_selection [OF ne last_index third] t_third
    by (simp add: easeValue_fl_at_zero)
  have r2: "generateEase_fl roundDouble ?segs (Finite 1) = Inr (Finite 20)"
    using generateEase_segment_selection [OF ne last_index one] t_one
    by (simp add: easeValue_fl_at_zero)
  from ne last_index third one r1 r2 show ?thesis
    by simp
qed

text \<open>With exact arithmetic the rounded closure is \<open>generateEase\<close>, and in double
  arithmetic the single segment \<open>{s: 0, cp: 0.5, e: 1}\<close> gives the same three values.\<close>

lemma generateEase_fl_exact: "generateEase_fl Finite segments time = generateEase segments time"
  unfolding generateEase_fl_def simpleEase_fl_def easeIndex_fl_def easeTime_fl_def
    easeSegment_fl_def easeValue_fl_def generateEase_def simpleEase_def easeIndex_def
    easeSegment_def fl_add_def fl_sub_def fl_mul_def fl_div_def rounded_exact
  by (rule refl)

lemma generateEase_fl_single_segment:
  "generateEase_fl roundDouble [\<lparr>s = Finite 0, cp = Finite (1 / 2), e = Finite 1\<rparr>] (Finite 0)
     = Inr (Finite 0)"
  "generateEase_fl roundDouble [\<lparr>s = Finite 0, cp = Finite (1 / 2), e = Finite 1\<rparr>]
     (Finite (1 / 2)) = Inr (Finite (1 / 2))"
  "generateEase_fl roundDouble [\<lparr>s = Finite 0, cp = Finite (1 / 2), e = Finite 1\<rparr>] (Finite 1)
     = Inr (Finite 0)"
  by (simp_all add: generateEase_fl_def simpleEase_fl_def easeIndex_fl_def easeTime_fl_def
      easeSegment_fl_def easeValue_fl_def fl_add_def fl_sub_def fl_mul_def fl_div_def
      rounded_simps roundDouble_zero roundDouble_half roundDouble_small_integers
      array_get_def num_bitor_def ofInt32_def truncateReal_def num_sub_def Let_def)

subsection \<open>normalize\<close>









subsection \<open>hexToRGB\<close>

lemma hexDigit_not_special:
  assumes "hexDigit c \<noteq> None"
  shows "\<not> isWhiteSpace c" and "c \<noteq> CHR ''-''" and "c \<noteq> CHR ''+''"
    and "c \<noteq> CHR ''x''" and "c \<noteq> CHR ''X''" and "c \<noteq> CHR ''#''"
  using assms by (auto simp add: hexDigit_def isWhiteSpace_def Let_def split: if_splits)

lemma parseInt16_pair:
  assumes "hexDigit c \<noteq> None" and "hexDigit d \<noteq> None"
  shows "parseInt16 [c, d] = hexPair c d"
  using assms hexDigit_not_special [OF assms(1)] hexDigit_not_special [OF assms(2)]
  by (simp add: parseInt16_def Let_def hexPair_def)

lemma indexOf_eq_0: "indexOf str pat = 0 \<longleftrightarrow> take (length pat) str = pat"
  by (cases str) (auto simp add: Let_def)

lemma hexToRGB_six:
  assumes "hexDigit r1 \<noteq> None" "hexDigit r2 \<noteq> None" "hexDigit g1 \<noteq> None"
    "hexDigit g2 \<noteq> None" "hexDigit b1 \<noteq> None" "hexDigit b2 \<noteq> None"
  shows "hexToRGB [r1, r2, g1, g2, b1, b2] out = [hexPair r1 r2, hexPair g1 g2, hexPair b1 b2]"
    and "hexToRGB (CHR ''#'' # [r1, r2, g1, g2, b1, b2]) out =
           [hexPair r1 r2, hexPair g1 g2, hexPair b1 b2]"
    and "hexToRGB (CHR ''0'' # CHR ''x'' # [r1, r2, g1, g2, b1, b2]) out =
           [hexPair r1 r2, hexPair g1 g2, hexPair b1 b2]"
  using assms hexDigit_not_special [OF assms(1)] hexDigit_not_special [OF assms(2)]
  by (simp_all add: hexToRGB_def Let_def charAt_def substr_def indexOf_eq_0 parseInt16_pair
      del: indexOf.simps split: option.split)

lemma hexToRGB_eight:
  assumes "hexDigit a1 \<noteq> None" "hexDigit a2 \<noteq> None"
    "hexDigit r1 \<noteq> None" "hexDigit r2 \<noteq> None" "hexDigit g1 \<noteq> None"
    "hexDigit g2 \<noteq> None" "hexDigit b1 \<noteq> None" "hexDigit b2 \<noteq> None"
  shows "hexToRGB [a1, a2, r1, r2, g1, g2, b1, b2] out =
           [hexPair r1 r2, hexPair g1 g2, hexPair b1 b2, hexPair a1 a2]"
    and "hexToRGB (CHR ''#'' # [a1, a2, r1, r2, g1, g2, b1, b2]) out =
           [hexPair r1 r2, hexPair g1 g2, hexPair b1 b2, hexPair a1 a2]"
    and "hexToRGB (CHR ''0'' # CHR ''x'' # [a1, a2, r1, r2, g1, g2, b1, b2]) out =
           [hexPair r1 r2, hexPair g1 g2, hexPair b1 b2, hexPair a1 a2]"
  using assms hexDigit_not_special [OF assms(1)] hexDigit_not_special [OF assms(2)]
  by (simp_all add: hexToRGB_def Let_def charAt_def substr_def indexOf_eq_0 parseInt16_pair
      del: indexOf.simps split: option.split)

lemma hexToRGB_examples:
  "hexToRGB ''#FF8040'' None = [Finite 255, Finite 128, Finite 64]"
  "hexToRGB ''0x80FF8040'' None = [Finite 255, Finite 128, Finite 64, Finite 128]"
  by (simp_all add: hexToRGB_def charAt_def substr_def parseInt16_def isWhiteSpace_def
      hexDigit_def hexValue_def Let_def)

text \<open>
  C5: \<open>hexToRGB\<close> accepts the six textual forms of a colour. For hexadecimal digits
  \<open>a1 a2 r1 r2 g1 g2 b1 b2\<close> (upper or lower case), the forms \<open>#AARRGGBB\<close>,
  \<open>0xAARRGGBB\<close> and \<open>AARRGGBB\<close> all give \<open>[r, g, b, a]\<close>, with the leading alpha pair
  emitted last, and the forms \<open>#RRGGBB\<close>, \<open>0xRRGGBB\<close> and \<open>RRGGBB\<close> all give
  \<open>[r, g, b]\<close> with the same channel values, whether or not an output array is passed.
  In particular \<open>hexToRGB("#FF8040")\<close> is \<open>[255, 128, 64]\<close> and
  \<open>hexToRGB("0x80FF8040")\<close> is \<open>[255, 128, 64, 128]\<close>.
\<close>

theorem hexToRGB_forms:
  assumes "hexDigit a1 \<noteq> None" "hexDigit a2 \<noteq> None"
    "hexDigit r1 \<noteq> None" "hexDigit r2 \<noteq> None" "hexDigit g1 \<noteq> None"
    "hexDigit g2 \<noteq> None" "hexDigit b1 \<noteq> None" "hexDigit b2 \<noteq> None"
  shows "hexToRGB (''#'' @ [a1, a2, r1, r2, g1, g2, b1, b2]) out =
           [hexPair r1 r2, hexPair g1 g2, hexPair b1 b2, hexPair a1 a2]
       \<and> hexToRGB (''0x'' @ [a1, a2, r1, r2, g1, g2, b1, b2]) out =
           [hexPair r1 r2, hexPair g1 g2, hexPair b1 b2, hexPair a1 a2]
       \<and> hexToRGB [a1, a2, r1, r2, g1, g2, b1, b2] out =
           [hexPair r1 r2, hexPair g1 g2, hexPair b1 b2, hexPair a1 a2]
       \<and> hexToRGB (''#'' @ [r1, r2, g1, g2, b1, b2]) out =
           [hexPair r1 r2, hexPair g1 g2, hexPair b1 b2]
       \<and> hexToRGB (''0x'' @ [r1, r2, g1, g2, b1, b2]) out =
           [hexPair r1 r2, hexPair g1 g2, hexPair b1 b2]
       \<and> hexToRGB [r1, r2, g1, g2, b1, b2] out =
           [hexPair r1 r2, hexPair g1 g2, hexPair b1 b2]
       \<and> hexToRGB ''#FF8040'' None = [Finite 255, Finite 128, Finite 64]
       \<and> hexToRGB ''0x80FF8040'' None = [Finite 255, Finite 128, Finite 64, Finite 128]"
  using hexToRGB_eight [OF assms, of out] hexToRGB_six [OF assms(3-8), of out] hexToRGB_examples
  by simp

theorem hexToRGB_forms_witness:
  "hexDigit CHR ''8'' \<noteq> None \<and> hexDigit CHR ''0'' \<noteq> None \<and> hexDigit CHR ''f'' \<noteq> None
   \<and> hexDigit CHR ''F'' \<noteq> None \<and> hexDigit CHR ''4'' \<noteq> None
   \<and> hexToRGB ''#80fF8040'' None = [Finite 255, Finite 128, Finite 64, Finite 128]
   \<and> hexToRGB ''0x80fF8040'' None = [Finite 255, Finite 128, Finite 64, Finite 128]
   \<and> hexToRGB ''80fF8040'' None = [Finite 255, Finite 128, Finite 64, Finite 128]
   \<and> hexToRGB ''#fF8040'' None = [Finite 255, Finite 128, Finite 64]
   \<and> hexToRGB ''0xfF8040'' None = [Finite 255, Finite 128, Finite 64]
   \<and> hexToRGB ''fF8040'' None = [Finite 255, Finite 128, Finite 64]"
proof -
  have d: "hexDigit CHR ''8'' \<noteq> None" "hexDigit CHR ''0'' \<noteq> None" "hexDigit CHR ''f'' \<noteq> None"
    "hexDigit CHR ''F'' \<noteq> None" "hexDigit CHR ''4'' \<noteq> None"
    by (simp_all add: hexDigit_def)
  have v: "hexPair CHR ''f'' CHR ''F'' = Finite 255" "hexPair CHR ''8'' CHR ''0'' = Finite 128"
    "hexPair CHR ''4'' CHR ''0'' = Finite 64"
    by (simp_all add: hexPair_def hexValue_def hexDigit_def)
  show ?thesis
    using hexToRGB_forms [OF d(1) d(2) d(3) d(4) d(1) d(2) d(5) d(2), of None] d v
    by simp
qed

subsection \<open>getBlendMode\<close>

lemma indexOf_char_neg: "indexOf str [c] < 0 \<Longrightarrow> c \<notin> set str"
  by (induction str) (auto simp add: Let_def split: if_splits)

lemma map_replace_char:
  "0 \<le> indexOf str [c] \<Longrightarrow>
     map (\<lambda>a. if a = c then d else a) (replace str [c] [d]) =
     map (\<lambda>a. if a = c then d else a) str"
proof (induction str)
  case Nil
  then show ?case by simp
next
  case (Cons a cs)
  show ?case
  proof (cases "a = c")
    case True
    then show ?thesis by (simp add: replace_def)
  next
    case False
    with Cons.prems have k: "0 \<le> indexOf cs [c]"
      by (simp add: Let_def split: if_splits)
    from Cons.IH [OF k] False k show ?thesis
      by (simp add: replace_def Let_def nat_add_distrib)
  qed
qed

text \<open>The loop replaces every space by an underscore.\<close>

lemma getBlendMode_loop_map:
  "getBlendMode_loop name = map (\<lambda>a. if a = CHR '' '' then CHR ''_'' else a) name"
proof (induction name rule: getBlendMode_loop.induct)
  case (1 name)
  show ?case
  proof (cases "0 \<le> indexOf name '' ''")
    case True
    then have "getBlendMode_loop name = getBlendMode_loop (replace name '' '' ''_'')"
      by (subst getBlendMode_loop.simps) simp
    also have "\<dots> = map (\<lambda>a. if a = CHR '' '' then CHR ''_'' else a) (replace name '' '' ''_'')"
      using True by (rule "1.IH")
    also have "\<dots> = map (\<lambda>a. if a = CHR '' '' then CHR ''_'' else a) name"
      using True by (rule map_replace_char)
    finally show ?thesis .
  next
    case False
    then have "CHR '' '' \<notin> set name"
      by (simp add: indexOf_char_neg)
    then have "map (\<lambda>a. if a = CHR '' '' then CHR ''_'' else a) name = name"
      by (induction name) auto
    moreover from False have "getBlendMode_loop name = name"
      by (subst getBlendMode_loop.simps) simp
    ultimately show ?thesis by simp
  qed
qed

lemma getBlendMode_Some:
  "getBlendMode BM (Some name) =
     (if name = [] then BM ''NORMAL''
      else case BM (map (\<lambda>a. if a = CHR '' '' then CHR ''_'' else a) (toUpperCase name)) of
             None \<Rightarrow> BM ''NORMAL''
           | Some v \<Rightarrow> if truthy v then Some v else BM ''NORMAL'')"
  by (simp add: getBlendMode_def getBlendMode_loop_map Let_def)

lemma toUpperCase_examples:
  "toUpperCase ''Screen'' = ''SCREEN''"
  "toUpperCase ''screen'' = ''SCREEN''"
  "toUpperCase ''SCREEN'' = ''SCREEN''"
  "toUpperCase ''not a mode'' = ''NOT A MODE''"
  by (code_simp, code_simp, code_simp, code_simp)

lemma toUpper_space_underscore:
  "toUpper CHR '' '' = CHR '' ''" "toUpper CHR ''_'' = CHR ''_''"
  by (simp_all add: toUpper_def)

lemma underscore_toUpper:
  "(if toUpper (if c = CHR '' '' then CHR ''_'' else c) = CHR '' '' then CHR ''_''
    else toUpper (if c = CHR '' '' then CHR ''_'' else c)) =
   (if toUpper c = CHR '' '' then CHR ''_'' else toUpper c)"
  by (cases "c = CHR '' ''") (simp_all add: toUpper_space_underscore)

lemma toUpperCase_underscores:
  "map (\<lambda>a. if a = CHR '' '' then CHR ''_'' else a)
     (toUpperCase (map (\<lambda>a. if a = CHR '' '' then CHR ''_'' else a) name)) =
   map (\<lambda>a. if a = CHR '' '' then CHR ''_'' else a) (toUpperCase name)"
  unfolding toUpperCase_def map_map comp_def
  by (rule map_cong [OF refl]) (rule underscore_toUpper)

lemma toUpperCase_Nil_iff: "toUpperCase name = [] \<longleftrightarrow> name = []"
  by (simp add: toUpperCase_def)

text \<open>
  C6: \<open>getBlendMode\<close> is case-insensitive and maps spaces to underscores: \<open>"Screen"\<close>,
  \<open>"screen"\<close> and \<open>"SCREEN"\<close> resolve to the same value (the table's entry \<open>SCREEN\<close> when
  it is a truthy number), two names with the same upper-case form resolve alike, and a
  name resolves like the name with its spaces replaced by underscores. An \<open>undefined\<close> or
  empty name, and a name whose normal form is not in the table, such as \<open>"not a mode"\<close>,
  resolve to the table's entry \<open>NORMAL\<close>; no case raises an error.
\<close>

theorem getBlendMode_resolution:
  "getBlendMode BM (Some ''Screen'') = getBlendMode BM (Some ''SCREEN'')
   \<and> getBlendMode BM (Some ''screen'') = getBlendMode BM (Some ''SCREEN'')
   \<and> (BM ''SCREEN'' = Some v \<and> truthy v \<longrightarrow> getBlendMode BM (Some ''Screen'') = Some v)
   \<and> (toUpperCase n = toUpperCase m \<longrightarrow> getBlendMode BM (Some n) = getBlendMode BM (Some m))
   \<and> getBlendMode BM (Some (map (\<lambda>a. if a = CHR '' '' then CHR ''_'' else a) n)) =
       getBlendMode BM (Some n)
   \<and> getBlendMode BM None = BM ''NORMAL''
   \<and> getBlendMode BM (Some []) = BM ''NORMAL''
   \<and> (BM (map (\<lambda>a. if a = CHR '' '' then CHR ''_'' else a) (toUpperCase n)) = None \<longrightarrow>
        getBlendMode BM (Some n) = BM ''NORMAL'')
   \<and> (BM ''NOT_A_MODE'' = None \<longrightarrow> getBlendMode BM (Some ''not a mode'') = BM ''NORMAL'')"
proof (intro conjI impI)
  show "getBlendMode BM (Some ''Screen'') = getBlendMode BM (Some ''SCREEN'')"
    and "getBlendMode BM (Some ''screen'') = getBlendMode BM (Some ''SCREEN'')"
    by (simp_all add: getBlendMode_Some toUpperCase_examples)
next
  assume "BM ''SCREEN'' = Some v \<and> truthy v"
  then show "getBlendMode BM (Some ''Screen'') = Some v"
    by (simp add: getBlendMode_Some toUpperCase_examples)
next
  assume eq: "toUpperCase n = toUpperCase m"
  then have "n = [] \<longleftrightarrow> m = []"
    by (metis toUpperCase_Nil_iff)
  with eq show "getBlendMode BM (Some n) = getBlendMode BM (Some m)"
    by (simp add: getBlendMode_Some)
next
  show "getBlendMode BM (Some (map (\<lambda>a. if a = CHR '' '' then CHR ''_'' else a) n)) =
       getBlendMode BM (Some n)"
    by (simp add: getBlendMode_Some toUpperCase_underscores)
next
  show "getBlendMode BM None = BM ''NORMAL''" and "getBlendMode BM (Some []) = BM ''NORMAL''"
    by (simp_all add: getBlendMode_def)
next
  assume "BM (map (\<lambda>a. if a = CHR '' '' then CHR ''_'' else a) (toUpperCase n)) = None"
  then show "getBlendMode BM (Some n) = BM ''NORMAL''"
    by (simp add: getBlendMode_Some)
next
  assume "BM ''NOT_A_MODE'' = None"
  then show "getBlendMode BM (Some ''not a mode'') = BM ''NORMAL''"
    by (simp add: getBlendMode_Some toUpperCase_examples)
qed

theorem getBlendMode_resolution_witness:
  "exampleBlendModes ''SCREEN'' = Some (Finite 3)
   \<and> truthy (Finite 3)
   \<and> getBlendMode exampleBlendModes (Some ''Screen'') = Some (Finite 3)
   \<and> toUpperCase ''not a mode'' = toUpperCase ''NOT A MODE''
   \<and> getBlendMode exampleBlendModes (Some ''not a mode'') =
       getBlendMode exampleBlendModes (Some ''NOT A MODE'')
   \<and> exampleBlendModes ''NOT_A_MODE'' = None
   \<and> getBlendMode exampleBlendModes (Some ''not a mode'') = Some (Finite 0)"
proof -
  note res = getBlendMode_resolution
    [of exampleBlendModes "Finite 3" "''not a mode''" "''NOT A MODE''"]
  have screen: "exampleBlendModes ''SCREEN'' = Some (Finite 3) \<and> truthy (Finite 3)"
    by (simp add: exampleBlendModes_def)
  have upper: "toUpperCase ''not a mode'' = toUpperCase ''NOT A MODE''"
    by code_simp
  have unknown: "exampleBlendModes ''NOT_A_MODE'' = None"
    by (simp add: exampleBlendModes_def)
  have normal: "exampleBlendModes ''NORMAL'' = Some (Finite 0)"
    by (simp add: exampleBlendModes_def)
  have r1: "getBlendMode exampleBlendModes (Some ''Screen'') = Some (Finite 3)"
    using res [THEN conjunct2, THEN conjunct2, THEN conjunct1] screen by (rule mp)
  have r2: "getBlendMode exampleBlendModes (Some ''not a mode'') =
      getBlendMode exampleBlendModes (Some ''NOT A MODE'')"
    using res [THEN conjunct2, THEN conjunct2, THEN conjunct2, THEN conjunct1] upper
    by (rule mp)
  have "getBlendMode exampleBlendModes (Some ''not a mode'') = exampleBlendModes ''NORMAL''"
    using res [THEN conjunct2, THEN conjunct2, THEN conjunct2, THEN conjunct2, THEN conjunct2,
        THEN conjunct2, THEN conjunct2, THEN conjunct2] unknown
    by (rule mp)
  then have r3: "getBlendMode exampleBlendModes (Some ''not a mode'') = Some (Finite 0)"
    by (simp only: normal)
  from screen r1 upper r2 unknown r3 show ?thesis
    by (intro conjI) (simp_all only:)
qed

subsection \<open>SpawnPolygonStrategy.spawn\<close>

lemma setRotation_frame:
  "points (setRotation random p em w) = points w"
  "emitters (setRotation random p em w) = emitters w"
  "Temp_point (setRotation random p em w) = Temp_point w"
  by (simp_all add: setRotation_def)

lemma setRotation_particles:
  "particles (setRotation random p em w) =
     (particles w)(p := (particles w p)
       \<lparr>rotation :=
          (if num_eq (minStartRotation (emitters w em)) (maxStartRotation (emitters w em))
           then num_add (minStartRotation (emitters w em)) (emitter.rotation (emitters w em))
           else num_add
                  (num_add
                     (num_mul random
                        (num_sub (maxStartRotation (emitters w em))
                           (minStartRotation (emitters w em))))
                     (minStartRotation (emitters w em)))
                  (emitter.rotation (emitters w em)))\<rparr>)"
  by (simp add: setRotation_def)

lemma samplePoint_frame:
  "particles (samplePoint getRandomPoint em w) = particles w"
  "emitters (samplePoint getRandomPoint em w) = emitters w"
  "Temp_point (samplePoint getRandomPoint em w) = Temp_point w"
  by (simp_all add: samplePoint_def)

lemma samplePoint_points:
  "points (samplePoint getRandomPoint em w) =
     (points w)(Temp_point w :=
        getRandomPoint (spawnPolygonalChain (emitters w em)) (points w (Temp_point w)))"
  by (simp add: samplePoint_def)

lemma rotateSampled_frame:
  "particles (rotateSampled em w) = particles w"
  "emitters (rotateSampled em w) = emitters w"
  "Temp_point (rotateSampled em w) = Temp_point w"
  by (simp_all add: rotateSampled_def)

lemma rotateSampled_points:
  "points (rotateSampled em w) =
     (points w)(Temp_point w :=
        (if \<not> num_eq (emitter.rotation (emitters w em)) (Finite 0)
         then rotatePoint (emitter.rotation (emitters w em)) (points w (Temp_point w))
         else points w (Temp_point w)))"
  by (simp add: rotateSampled_def)

lemma setPosition_frame:
  "particles (setPosition p emitPosX emitPosY w) = particles w"
  "emitters (setPosition p emitPosX emitPosY w) = emitters w"
  "Temp_point (setPosition p emitPosX emitPosY w) = Temp_point w"
  by (simp_all add: setPosition_def Let_def)

lemma setPosition_points:
  "points (setPosition p emitPosX emitPosY w) a =
     (if a = particle.position (particles w p)
      then (points w a)\<lparr>x := num_add emitPosX (x (points w (Temp_point w))),
                         y := num_add emitPosY (y (points w (Temp_point w)))\<rparr>
      else points w a)"
  by (simp add: setPosition_def Let_def)

lemma spawn_particles:
  "particles (spawn getRandomPoint random p emitPosX emitPosY w) =
     (particles w)(p := (particles w p)
       \<lparr>rotation :=
          (let em = emitters w (particle.emitter (particles w p))
           in if num_eq (minStartRotation em) (maxStartRotation em)
              then num_add (minStartRotation em) (emitter.rotation em)
              else num_add
                     (num_add
                        (num_mul random (num_sub (maxStartRotation em) (minStartRotation em)))
                        (minStartRotation em))
                     (emitter.rotation em))\<rparr>)"
  by (simp add: spawn_def Let_def setPosition_frame rotateSampled_frame samplePoint_frame
      setRotation_particles)

lemma spawn_emitters:
  "emitters (spawn getRandomPoint random p emitPosX emitPosY w) = emitters w"
  by (simp add: spawn_def Let_def setPosition_frame rotateSampled_frame samplePoint_frame
      setRotation_frame)

lemma spawn_Temp_point:
  "Temp_point (spawn getRandomPoint random p emitPosX emitPosY w) = Temp_point w"
  by (simp add: spawn_def Let_def setPosition_frame rotateSampled_frame samplePoint_frame
      setRotation_frame)

lemma spawn_points:
  "points (spawn getRandomPoint random p emitPosX emitPosY w) a =
     (if a = particle.position (particles w p)
      then (((points w)(Temp_point w := localPoint getRandomPoint p w)) a)
             \<lparr>x := num_add emitPosX (x (localPoint getRandomPoint p w)),
              y := num_add emitPosY (y (localPoint getRandomPoint p w))\<rparr>
      else ((points w)(Temp_point w := localPoint getRandomPoint p w)) a)"
  by (simp add: spawn_def Let_def setPosition_points setPosition_frame rotateSampled_frame
      rotateSampled_points samplePoint_frame samplePoint_points setRotation_frame
      setRotation_particles localPoint_def)

lemma example_localPoint:
  "localPoint exampleSample 0 (exampleWorld mn mx (Finite 180)) = \<lparr>x = Finite (- 3), y = Finite (- 4)\<rparr>"
  by (simp add: localPoint_def exampleWorld_def exampleSample_def rotatePoint_def DEG_TO_RADS_def
      num_sub_def Let_def)

text \<open>
  C3: after every call of \<open>spawn\<close>, the particle's position is the emission origin
  \<open>(emitPosX, emitPosY)\<close> plus the local point: the point sampled from the emitter's
  chain, rotated by \<open>rotatePoint\<close> with the emitter's rotation exactly when that rotation
  is not \<open>0\<close>.
\<close>

theorem spawn_position:
  "let w' = spawn getRandomPoint random p emitPosX emitPosY w;
       pos = points w' (particle.position (particles w' p));
       local = localPoint getRandomPoint p w
   in x pos = num_add emitPosX (x local) \<and> y pos = num_add emitPosY (y local)"
  by (simp add: Let_def spawn_particles spawn_points)

theorem spawn_position_witness:
  "x (points (spawn exampleSample (Finite (1 / 2)) 0 (Finite 10) (Finite 20)
        (exampleWorld (Finite 10) (Finite 20) (Finite 180))) 1) = Finite 7
   \<and> y (points (spawn exampleSample (Finite (1 / 2)) 0 (Finite 10) (Finite 20)
        (exampleWorld (Finite 10) (Finite 20) (Finite 180))) 1) = Finite 16"
proof -
  have pos: "particle.position (particles (spawn exampleSample (Finite (1 / 2)) 0 (Finite 10)
      (Finite 20) (exampleWorld (Finite 10) (Finite 20) (Finite 180))) 0) = 1"
    by (simp add: spawn_particles exampleWorld_def)
  show ?thesis
    using spawn_position [of exampleSample "Finite (1 / 2)" 0 "Finite 10" "Finite 20"
        "exampleWorld (Finite 10) (Finite 20) (Finite 180)"]
    by (simp add: Let_def pos example_localPoint)
qed

text \<open>
  C10: \<open>spawn\<close> writes only the particle's rotation, the particle's position point and
  the scratch point. Every emitter object is unchanged in every field, the references
  held by the particle and every other particle are unchanged, and so is every point
  other than the scratch point and the particle's position.
\<close>

theorem spawn_frame:
  "let w' = spawn getRandomPoint random p emitPosX emitPosY w
   in emitters w' = emitters w
      \<and> Temp_point w' = Temp_point w
      \<and> (\<forall>q. q \<noteq> p \<longrightarrow> particles w' q = particles w q)
      \<and> particle.emitter (particles w' p) = particle.emitter (particles w p)
      \<and> particle.position (particles w' p) = particle.position (particles w p)
      \<and> (\<forall>a. a \<noteq> Temp_point w \<and> a \<noteq> particle.position (particles w p) \<longrightarrow>
            points w' a = points w a)"
  by (simp add: Let_def spawn_particles spawn_points spawn_emitters spawn_Temp_point)

theorem spawn_frame_witness:
  "(2::nat) \<noteq> Temp_point (exampleWorld (Finite 10) (Finite 20) (Finite 180))
   \<and> (2::nat) \<noteq> particle.position (particles (exampleWorld (Finite 10) (Finite 20) (Finite 180)) 0)
   \<and> points (spawn exampleSample (Finite (1 / 2)) 0 (Finite 10) (Finite 20)
        (exampleWorld (Finite 10) (Finite 20) (Finite 180))) 2 =
       points (exampleWorld (Finite 10) (Finite 20) (Finite 180)) 2
   \<and> (1::nat) \<noteq> 0
   \<and> particles (spawn exampleSample (Finite (1 / 2)) 0 (Finite 10) (Finite 20)
        (exampleWorld (Finite 10) (Finite 20) (Finite 180))) 1 =
       particles (exampleWorld (Finite 10) (Finite 20) (Finite 180)) 1
   \<and> emitters (spawn exampleSample (Finite (1 / 2)) 0 (Finite 10) (Finite 20)
        (exampleWorld (Finite 10) (Finite 20) (Finite 180))) =
       emitters (exampleWorld (Finite 10) (Finite 20) (Finite 180))"
proof -
  have ne: "(2::nat) \<noteq> Temp_point (exampleWorld (Finite 10) (Finite 20) (Finite 180))"
    "(2::nat) \<noteq> particle.position (particles (exampleWorld (Finite 10) (Finite 20) (Finite 180)) 0)"
    "(1::nat) \<noteq> 0"
    by (simp_all add: exampleWorld_def)
  show ?thesis
    using spawn_frame [of exampleSample "Finite (1 / 2)" 0 "Finite 10" "Finite 20"
        "exampleWorld (Finite 10) (Finite 20) (Finite 180)"] ne
    unfolding Let_def by blast
qed

lemma uniform_range:
  fixes a b r :: real
  assumes "0 \<le> r" and "r < 1"
  shows "min a b \<le> a + r * (b - a)" and "a + r * (b - a) \<le> max a b"
proof -
  have "a + r * (b - a) = (1 - r) * a + r * b"
    by (simp add: algebra_simps)
  moreover have "min a b \<le> (1 - r) * a + r * b"
  proof -
    have "(1 - r) * min a b \<le> (1 - r) * a" and "r * min a b \<le> r * b"
      using assms by (simp_all add: mult_left_mono)
    then have "(1 - r) * min a b + r * min a b \<le> (1 - r) * a + r * b"
      by (rule add_mono)
    then show ?thesis by (simp add: algebra_simps)
  qed
  moreover have "(1 - r) * a + r * b \<le> max a b"
  proof -
    have "(1 - r) * a \<le> (1 - r) * max a b" and "r * b \<le> r * max a b"
      using assms by (simp_all add: mult_left_mono)
    then have "(1 - r) * a + r * b \<le> (1 - r) * max a b + r * max a b"
      by (rule add_mono)
    then show ?thesis by (simp add: algebra_simps)
  qed
  ultimately show "min a b \<le> a + r * (b - a)" and "a + r * (b - a) \<le> max a b"
    by simp_all
qed

text \<open>
  C2: after every call of \<open>spawn\<close>, if the emitter's \<open>minStartRotation\<close> and
  \<open>maxStartRotation\<close> are equal (\<open>==\<close>, no tolerance) the particle's rotation is
  \<open>minStartRotation + emitter.rotation\<close>; otherwise it is
  \<open>random * (max - min) + min + emitter.rotation\<close>, which for finite values and a random
  number \<open>r\<close> in \<open>[0, 1)\<close> is the emitter's rotation plus the value \<open>min + r * (max - min)\<close>,
  the image of the uniform draw between the two bounds. With both bounds \<open>45\<close> and emitter
  rotation \<open>0\<close> the rotation is \<open>45\<close>.
\<close>

theorem spawn_rotation:
  "let em = emitters w (particle.emitter (particles w p));
       w' = spawn getRandomPoint random p emitPosX emitPosY w
   in (num_eq (minStartRotation em) (maxStartRotation em) \<longrightarrow>
         particle.rotation (particles w' p) =
           num_add (minStartRotation em) (emitter.rotation em))
      \<and> (\<not> num_eq (minStartRotation em) (maxStartRotation em) \<longrightarrow>
           particle.rotation (particles w' p) =
             num_add
               (num_add
                  (num_mul random (num_sub (maxStartRotation em) (minStartRotation em)))
                  (minStartRotation em))
               (emitter.rotation em))
      \<and> (minStartRotation em = Finite a \<and> maxStartRotation em = Finite b
           \<and> emitter.rotation em = Finite c \<and> random = Finite r
           \<and> a \<noteq> b \<and> 0 \<le> r \<and> r < 1 \<longrightarrow>
           particle.rotation (particles w' p) = Finite (c + (a + r * (b - a)))
           \<and> min a b \<le> a + r * (b - a) \<and> a + r * (b - a) \<le> max a b)
      \<and> (minStartRotation em = Finite 45 \<and> maxStartRotation em = Finite 45
           \<and> emitter.rotation em = Finite 0 \<longrightarrow>
           particle.rotation (particles w' p) = Finite 45)"
proof -
  let ?em = "emitters w (particle.emitter (particles w p))"
  let ?w' = "spawn getRandomPoint random p emitPosX emitPosY w"
  have equal: "num_eq (minStartRotation ?em) (maxStartRotation ?em) \<longrightarrow>
      particle.rotation (particles ?w' p) = num_add (minStartRotation ?em) (emitter.rotation ?em)"
    by (simp add: spawn_particles Let_def)
  have differ: "\<not> num_eq (minStartRotation ?em) (maxStartRotation ?em) \<longrightarrow>
      particle.rotation (particles ?w' p) =
        num_add
          (num_add (num_mul random (num_sub (maxStartRotation ?em) (minStartRotation ?em)))
             (minStartRotation ?em))
          (emitter.rotation ?em)"
    by (simp add: spawn_particles Let_def)
  have uniform: "minStartRotation ?em = Finite a \<and> maxStartRotation ?em = Finite b
      \<and> emitter.rotation ?em = Finite c \<and> random = Finite r \<and> a \<noteq> b \<and> 0 \<le> r \<and> r < 1 \<longrightarrow>
      particle.rotation (particles ?w' p) = Finite (c + (a + r * (b - a)))
      \<and> min a b \<le> a + r * (b - a) \<and> a + r * (b - a) \<le> max a b"
  proof (intro impI conjI)
    assume h: "minStartRotation ?em = Finite a \<and> maxStartRotation ?em = Finite b
      \<and> emitter.rotation ?em = Finite c \<and> random = Finite r \<and> a \<noteq> b \<and> 0 \<le> r \<and> r < 1"
    then show "particle.rotation (particles ?w' p) = Finite (c + (a + r * (b - a)))"
      by (simp add: spawn_particles Let_def num_sub_def add.commute)
    from h show "min a b \<le> a + r * (b - a)" and "a + r * (b - a) \<le> max a b"
      by (simp_all only: uniform_range)
  qed
  have fixed: "minStartRotation ?em = Finite 45 \<and> maxStartRotation ?em = Finite 45
      \<and> emitter.rotation ?em = Finite 0 \<longrightarrow> particle.rotation (particles ?w' p) = Finite 45"
    by (simp add: spawn_particles Let_def)
  from equal differ uniform fixed show ?thesis
    unfolding Let_def by (intro conjI)
qed

theorem spawn_rotation_witness:
  "num_eq (minStartRotation (emitters (exampleWorld (Finite 45) (Finite 45) (Finite 0)) 0))
     (maxStartRotation (emitters (exampleWorld (Finite 45) (Finite 45) (Finite 0)) 0))
   \<and> particle.rotation (particles (spawn exampleSample (Finite (1 / 2)) 0 (Finite 10) (Finite 20)
        (exampleWorld (Finite 45) (Finite 45) (Finite 0))) 0) = Finite 45
   \<and> \<not> num_eq (minStartRotation (emitters (exampleWorld (Finite 10) (Finite 20) (Finite 180)) 0))
       (maxStartRotation (emitters (exampleWorld (Finite 10) (Finite 20) (Finite 180)) 0))
   \<and> (10::real) \<noteq> 20 \<and> (0::real) \<le> 1 / 2 \<and> (1 / 2 :: real) < 1
   \<and> particle.rotation (particles (spawn exampleSample (Finite (1 / 2)) 0 (Finite 10) (Finite 20)
        (exampleWorld (Finite 10) (Finite 20) (Finite 180))) 0) = Finite 195"
proof -
  have fixed: "particle.rotation (particles (spawn exampleSample (Finite (1 / 2)) 0 (Finite 10)
      (Finite 20) (exampleWorld (Finite 45) (Finite 45) (Finite 0))) 0) = Finite 45"
    using spawn_rotation [of "exampleWorld (Finite 45) (Finite 45) (Finite 0)" 0 exampleSample
        "Finite (1 / 2)" "Finite 10" "Finite 20" 45 45 0 "1 / 2"]
    by (simp add: Let_def exampleWorld_def)
  have drawn: "particle.rotation (particles (spawn exampleSample (Finite (1 / 2)) 0 (Finite 10)
      (Finite 20) (exampleWorld (Finite 10) (Finite 20) (Finite 180))) 0) = Finite 195"
    using spawn_rotation [of "exampleWorld (Finite 10) (Finite 20) (Finite 180)" 0 exampleSample
        "Finite (1 / 2)" "Finite 10" "Finite 20" 10 20 180 "1 / 2"]
    by (simp add: Let_def exampleWorld_def num_sub_def)
  from fixed drawn show ?thesis
    by (simp add: exampleWorld_def)
qed

end
